theory Spec2Isabelle
  imports Main "HOL-Library.Word"
begin

section \<open>The ad-creation script \<^verbatim>\<open>generate_ad.py\<close>\<close>

text \<open>
  The script is one function, \<^verbatim>\<open>create_gamebuddies_ad\<close>: it checks three avatar files,
  reads them, submits a video-generation request, polls the remote operation and saves the
  first generated video. Everything it does is an effect, so the model threads a world
  (the filesystem and the trace of effects made so far) through the function, and takes
  the answers of the remote service and of the operating system from an environment.
\<close>

subsection \<open>Paths\<close>

text \<open>
  A path is the list of its components below the root. \<^verbatim>\<open>os.path.abspath\<close> normalises
  lexically: an empty component and \<^verbatim>\<open>.\<close> are dropped, \<^verbatim>\<open>..\<close> removes the component
  before it and is dropped at the root.
\<close>

type_synonym path = "string list"

definition normstep :: "path \<Rightarrow> string \<Rightarrow> path" where
  "normstep acc c =
     (if c = [] \<or> c = ''.'' then acc else if c = ''..'' then butlast acc else acc @ [c])"

definition abspath :: "path \<Rightarrow> path" where
  "abspath cs = foldl normstep [] cs"

definition basename :: "path \<Rightarrow> string" where
  "basename p = (if p = [] then [] else last p)"

text \<open>
  Lines 14 to 24. The argument is the list of components of
  \<^verbatim>\<open>os.path.dirname(__file__)\<close>, made absolute with the working directory.
\<close>

definition avatars_dir :: "path \<Rightarrow> path" where
  "avatars_dir script_dir = abspath (script_dir @ [''..'', ''..'', ''public'', ''avatars''])"

definition premium_dir :: "path \<Rightarrow> path" where
  "premium_dir script_dir = avatars_dir script_dir @ [''premium'']"

definition free_dir :: "path \<Rightarrow> path" where
  "free_dir script_dir = avatars_dir script_dir @ [''free'']"

definition avatar_files :: "path \<Rightarrow> path list" where
  "avatar_files script_dir =
     [premium_dir script_dir @ [''archer.png''],
      premium_dir script_dir @ [''knight.png''],
      premium_dir script_dir @ [''mage.png'']]"

text \<open>Line 96.\<close>

definition output_path :: "path \<Rightarrow> path" where
  "output_path script_dir =
     abspath (script_dir @ [''..'', ''..'', ''public'', ''gamebuddies_veo_ad.mp4''])"

subsection \<open>Data\<close>

type_synonym bytes = "8 word list"

text \<open>An exception is kept as the text it prints.\<close>

datatype exn = FileNotFoundError path | Exception string

text \<open>
  What a path names: a file with its contents, or something that exists but whose
  \<^verbatim>\<open>open\<close> or \<^verbatim>\<open>read\<close> raises (a directory, a file without read permission).
\<close>

datatype node = File bytes | Unreadable exn

text \<open>
  Several paths can name one file (hard links, symbolic links), so the filesystem is a
  store behind the paths: \<open>realpath\<close> sends a path to the path under which what it names
  is stored, and \<open>store\<close> holds what is there. \<^verbatim>\<open>os.path.exists\<close> and \<^verbatim>\<open>open\<close>, for
  reading and for writing, follow links: they act on what the path names. The script
  creates and removes no link, so \<open>realpath\<close> stays as it is during a run.
\<close>

record filesystem =
  realpath :: "path \<Rightarrow> path"
  store :: "path \<rightharpoonup> node"

definition lookup :: "filesystem \<Rightarrow> path \<Rightarrow> node option" where
  "lookup f p = store f (realpath f p)"

definition put :: "filesystem \<Rightarrow> path \<Rightarrow> node \<Rightarrow> filesystem" where
  "put f p n = f\<lparr>store := (store f)(realpath f p \<mapsto> n)\<rparr>"

text \<open>
  Modelled from the spec: the types of the \<^verbatim>\<open>google.genai\<close> library, which is not part of
  the repository. ReferenceImage is (raw bytes, MIME type, role tag); GenerationRequest is
  (model identifier, prompt text, list of ReferenceImage); GeneratedVideo is an opaque remote
  handle; Operation has a completion flag and an eventual result or error. Lines 94 and 127
  test the result, the list of videos and the error for truth: a list that is absent is
  not told apart from an empty one, and an error is present when that test holds.
\<close>

record genai_image =
  image_bytes :: bytes
  mime_type :: string

record reference_image =
  ref_image :: genai_image
  reference_type :: string

record request =
  req_model :: string
  req_prompt :: string
  reference_images :: "reference_image list"

datatype video_file = Video_file string

record generated_video =
  video :: video_file

record videos_response =
  generated_videos :: "generated_video list"

record operation =
  op_done :: bool
  op_result :: "videos_response option"
  op_error :: "string option"

text \<open>What \<^verbatim>\<open>client.files.download\<close> does: it raises, or returns bytes, or returns a
  value of another type (kept as the name of that type).\<close>

datatype download = Download_raises exn | Download_bytes bytes | Download_other string

text \<open>
  What opening the output file with mode \<^verbatim>\<open>wb\<close> and writing to it does: both succeed, or
  \<^verbatim>\<open>open\<close> raises and the file is untouched, or \<^verbatim>\<open>write\<close> raises after the file was
  truncated and that many bytes reached it.
\<close>

datatype write_outcome = Write_ok | Open_raises exn | Write_raises nat exn

record env =
  script_dir :: path
  generate_videos :: "request \<Rightarrow> exn + operation"
  operations_get :: "nat \<Rightarrow> exn + operation"
  files_download :: "video_file \<Rightarrow> download"
  write_outcome :: write_outcome

text \<open>
  Every \<^verbatim>\<open>print\<close> of the script is one message; the effects are the prints, the opening
  of files, the sleeps and the three remote calls. \<^verbatim>\<open>Operations_get n\<close> is the call
  number \<open>n\<close> of \<^verbatim>\<open>client.operations.get\<close>, answered by \<open>operations_get env n\<close>.
\<close>

datatype msg =
    Starting
  | Avatar_not_found path
  | No_avatars_found
  | Found_avatars nat
  | Loading string
  | Failed_to_load exn
  | Sending_request
  | Waiting
  | Dot
  | Generation_complete
  | Saving_to path
  | Video_object generated_video
  | Video_video_object video_file
  | Video_video_attributes video_file
  | Attempting_download
  | Download_returned_bytes
  | Video_saved
  | Download_returned_type string
  | Failed_to_save exn
  | No_video_returned
  | Error_is string
  | Api_request_failed exn

datatype mode = Rb | Wb

datatype effect =
    Print msg
  | Open_file path mode
  | Sleep nat
  | Generate_videos request
  | Operations_get nat
  | Files_download video_file

record world =
  fs :: filesystem
  trace :: "effect list"

definition emit :: "effect list \<Rightarrow> world \<Rightarrow> world" where
  "emit es w = w\<lparr>trace := trace w @ es\<rparr>"

subsection \<open>Lines 27 to 32: which avatar files exist\<close>

fun verify_files :: "path list \<Rightarrow> path list \<Rightarrow> world \<Rightarrow> path list \<times> world" where
  "verify_files [] valid_avatars w = (valid_avatars, w)"
| "verify_files (p # ps) valid_avatars w =
     (if lookup (fs w) p \<noteq> None then verify_files ps (valid_avatars @ [p]) w
      else verify_files ps valid_avatars (emit [Print (Avatar_not_found p)] w))"

subsection \<open>Lines 41 to 60: reading the images\<close>

definition asset_image :: "bytes \<Rightarrow> reference_image" where
  "asset_image b =
     \<lparr>ref_image = \<lparr>image_bytes = b, mime_type = ''image/png''\<rparr>, reference_type = ''asset''\<rparr>"

definition read_file :: "filesystem \<Rightarrow> path \<Rightarrow> exn + bytes" where
  "read_file f p =
     (case lookup f p of None \<Rightarrow> Inl (FileNotFoundError p)
      | Some (Unreadable e) \<Rightarrow> Inl e
      | Some (File b) \<Rightarrow> Inr b)"

fun load_images :: "path list \<Rightarrow> reference_image list \<Rightarrow> world \<Rightarrow> reference_image list \<times> world" where
  "load_images [] imgs w = (imgs, w)"
| "load_images (p # ps) imgs w =
     (let w1 = emit [Print (Loading (basename p)), Open_file p Rb] w in
      case read_file (fs w1) p of
        Inr b \<Rightarrow> load_images ps (imgs @ [asset_image b]) w1
      | Inl e \<Rightarrow> load_images ps imgs (emit [Print (Failed_to_load e)] w1))"

subsection \<open>Lines 64 to 84: the request\<close>

definition prompt :: string where
  "prompt =
     ''A cinematic trailer for a multiplayer game called GameBuddies. '' @
     ''Show the provided mascot characters (Archer, Knight, Mage, and Base) '' @
     ''standing together in a vibrant, pixel-art inspired fantasy lobby. '' @
     ''The camera pans slowly across them as they perform idle animations like '' @
     ''waving, checking gear, or casting small magical sparks. '' @
     ''The background is a cheerful, bright game world with floating islands. '' @
     ''The video feels energetic and inviting, highlighting the variety of customizable characters.''"

definition veo_request :: "reference_image list \<Rightarrow> request" where
  "veo_request imgs =
     \<lparr>req_model = ''veo-3.1-generate-preview'', req_prompt = prompt, reference_images = imgs\<rparr>"

subsection \<open>Lines 87 to 90: the polling loop\<close>

text \<open>
  The loop has no bound of its own, so the model counts the iterations it is allowed to
  observe: with none left and the flag still false the result is \<open>Still_polling\<close>, the
  world of a run that is inside the loop. A run leaves the loop when the flag is true
  (\<open>Polled\<close>) or when \<^verbatim>\<open>client.operations.get\<close> raises (\<open>Poll_raised\<close>).
\<close>

datatype polling = Polled operation world | Poll_raised exn world | Still_polling world

fun poll :: "nat \<Rightarrow> env \<Rightarrow> nat \<Rightarrow> operation \<Rightarrow> world \<Rightarrow> polling" where
  "poll 0 e n opn w = (if op_done opn then Polled opn w else Still_polling w)"
| "poll (Suc fuel) e n opn w =
     (if op_done opn then Polled opn w
      else let w1 = emit [Sleep 10, Operations_get n] w in
        case operations_get e n of
          Inl ex \<Rightarrow> Poll_raised ex w1
        | Inr opn' \<Rightarrow> poll fuel e (Suc n) opn' (emit [Print Dot] w1))"

subsection \<open>Lines 94 to 128: saving the result\<close>

text \<open>Lines 116 and 117. The exception, if any, comes back with the world it left.\<close>

definition write_file :: "env \<Rightarrow> path \<Rightarrow> bytes \<Rightarrow> world \<Rightarrow> exn option \<times> world" where
  "write_file e p b w =
     (let w1 = emit [Open_file p Wb] w in
      case write_outcome e of
        Open_raises ex \<Rightarrow> (Some ex, w1)
      | Write_raises k ex \<Rightarrow> (Some ex, w1\<lparr>fs := put (fs w1) p (File (take k b))\<rparr>)
      | Write_ok \<Rightarrow> (None, w1\<lparr>fs := put (fs w1) p (File b)\<rparr>))"

text \<open>Lines 95 to 124: the inner \<^verbatim>\<open>try\<close> and its handler.\<close>

definition save_video :: "env \<Rightarrow> generated_video \<Rightarrow> world \<Rightarrow> world" where
  "save_video e v w =
     (let out = output_path (script_dir e);
          w1 = emit [Print (Saving_to out), Print (Video_object v),
                     Print (Video_video_object (video v)),
                     Print (Video_video_attributes (video v)),
                     Print Attempting_download, Files_download (video v)] w in
      case files_download e (video v) of
        Download_raises ex \<Rightarrow> emit [Print (Failed_to_save ex)] w1
      | Download_other ty \<Rightarrow> emit [Print (Download_returned_type ty)] w1
      | Download_bytes b \<Rightarrow>
          (case write_file e out b (emit [Print Download_returned_bytes] w1) of
             (Some ex, w2) \<Rightarrow> emit [Print (Failed_to_save ex)] w2
           | (None, w2) \<Rightarrow> emit [Print Video_saved] w2))"

text \<open>Lines 125 to 128.\<close>

definition no_video :: "operation \<Rightarrow> world \<Rightarrow> world" where
  "no_video opn w =
     (let w1 = emit [Print No_video_returned] w in
      case op_error opn of
        Some er \<Rightarrow> emit [Print (Error_is er)] w1
      | None \<Rightarrow> w1)"

text \<open>Lines 94 to 128: \<^verbatim>\<open>operation.result and operation.result.generated_videos\<close> is
  true when there is a result and its list has an element.\<close>

definition persist :: "env \<Rightarrow> operation \<Rightarrow> world \<Rightarrow> world" where
  "persist e opn w =
     (case op_result opn of
        None \<Rightarrow> no_video opn w
      | Some r \<Rightarrow>
          (case generated_videos r of
             [] \<Rightarrow> no_video opn w
           | v # vs \<Rightarrow> save_video e v w))"

subsection \<open>Lines 75 to 131: the outer \<^verbatim>\<open>try\<close> and its handler\<close>

text \<open>A run has returned, or it is still inside the polling loop.\<close>

datatype outcome = Returned world | Running world

fun world_of :: "outcome \<Rightarrow> world" where
  "world_of (Returned w) = w"
| "world_of (Running w) = w"

definition submit_poll_save :: "nat \<Rightarrow> env \<Rightarrow> reference_image list \<Rightarrow> world \<Rightarrow> outcome" where
  "submit_poll_save fuel e imgs w =
     (let w1 = emit [Generate_videos (veo_request imgs)] w in
      case generate_videos e (veo_request imgs) of
        Inl ex \<Rightarrow> Returned (emit [Print (Api_request_failed ex)] w1)
      | Inr opn \<Rightarrow>
          (case poll fuel e 0 opn (emit [Print Waiting] w1) of
             Still_polling w2 \<Rightarrow> Running w2
           | Poll_raised ex w2 \<Rightarrow> Returned (emit [Print (Api_request_failed ex)] w2)
           | Polled opn' w2 \<Rightarrow>
               Returned (persist e opn' (emit [Print Generation_complete] w2))))"

subsection \<open>The whole function\<close>

definition create_gamebuddies_ad :: "nat \<Rightarrow> env \<Rightarrow> filesystem \<Rightarrow> outcome" where
  "create_gamebuddies_ad fuel e f =
     (let w0 = emit [Print Starting] \<lparr>fs = f, trace = []\<rparr>;
          (valid_avatars, w1) = verify_files (avatar_files (script_dir e)) [] w0 in
      if valid_avatars = [] then Returned (emit [Print No_avatars_found] w1)
      else
        let w2 = emit [Print (Found_avatars (length valid_avatars))] w1;
            (imgs, w3) = load_images valid_avatars [] w2 in
        submit_poll_save fuel e imgs (emit [Print Sending_request] w3))"

section \<open>Notions used to state the properties\<close>

text \<open>
  The warnings of lines 31 and 32 for the paths of a list that do not exist.
\<close>

definition missing_warnings :: "filesystem \<Rightarrow> path list \<Rightarrow> effect list" where
  "missing_warnings f ps = map (\<lambda>p. Print (Avatar_not_found p)) (filter (\<lambda>p. lookup f p = None) ps)"

text \<open>
  The contents of the files of a list that can be read, in the order of the list, and what
  the loop of lines 43 to 60 prints and opens on that list: two effects for every path,
  and the failure message for a path that cannot be read.
\<close>

definition loaded :: "filesystem \<Rightarrow> path list \<Rightarrow> bytes list" where
  "loaded f ps = concat (map (\<lambda>p. case read_file f p of Inr b \<Rightarrow> [b] | Inl e \<Rightarrow> []) ps)"

definition load_effects :: "filesystem \<Rightarrow> path list \<Rightarrow> effect list" where
  "load_effects f ps =
     concat (map (\<lambda>p. [Print (Loading (basename p)), Open_file p Rb] @
                       (case read_file f p of Inr b \<Rightarrow> [] | Inl e \<Rightarrow> [Print (Failed_to_load e)])) ps)"

text \<open>
  The effects of \<open>k\<close> iterations of the polling loop that start with call number \<open>n\<close>,
  and the operation the loop condition looks at before iteration \<open>i\<close>: the submitted one
  first, then the answer to the call before.
\<close>

definition poll_rounds :: "nat \<Rightarrow> nat \<Rightarrow> effect list" where
  "poll_rounds n k = concat (map (\<lambda>i. [Sleep 10, Operations_get i, Print Dot]) [n..<n + k])"

definition seen :: "env \<Rightarrow> nat \<Rightarrow> operation \<Rightarrow> nat \<Rightarrow> exn + operation" where
  "seen e n opn i = (case i of 0 \<Rightarrow> Inr opn | Suc j \<Rightarrow> operations_get e (n + j))"

text \<open>
  The requests submitted, the files opened and the remote calls made in a trace.
\<close>

definition submissions :: "effect list \<Rightarrow> request list" where
  "submissions es = concat (map (\<lambda>x. case x of Generate_videos r \<Rightarrow> [r] | _ \<Rightarrow> []) es)"

definition opened :: "effect list \<Rightarrow> (path \<times> mode) list" where
  "opened es = concat (map (\<lambda>x. case x of Open_file p m \<Rightarrow> [(p, m)] | _ \<Rightarrow> []) es)"

fun is_api_call :: "effect \<Rightarrow> bool" where
  "is_api_call (Generate_videos r) = True"
| "is_api_call (Operations_get n) = True"
| "is_api_call (Files_download v) = True"
| "is_api_call x = False"

definition api_calls :: "effect list \<Rightarrow> effect list" where
  "api_calls es = filter is_api_call es"

fun polling_world :: "polling \<Rightarrow> world" where
  "polling_world (Polled opn w) = w"
| "polling_world (Poll_raised ex w) = w"
| "polling_world (Still_polling w) = w"

text \<open>
  The effects of lines 98 to 111, up to the call of \<^verbatim>\<open>client.files.download\<close>.
\<close>

definition save_prelude :: "path \<Rightarrow> generated_video \<Rightarrow> effect list" where
  "save_prelude out v =
     [Print (Saving_to out), Print (Video_object v), Print (Video_video_object (video v)),
      Print (Video_video_attributes (video v)), Print Attempting_download,
      Files_download (video v)]"

section \<open>Example inputs\<close>

text \<open>
  A checkout under \<^verbatim>\<open>/repo\<close>, operations in three states, a service that completes at the
  third poll and hands out three bytes, and variations of it that fail in one place each.
\<close>

definition here :: path where
  "here = [''repo'', ''server'', ''scripts'', ''veo_ad_creation'']"

definition pending :: operation where
  "pending = \<lparr>op_done = False, op_result = None, op_error = None\<rparr>"

definition clip :: generated_video where
  "clip = \<lparr>video = Video_file ''files/clip''\<rparr>"

definition finished :: operation where
  "finished = \<lparr>op_done = True, op_result = Some \<lparr>generated_videos = [clip]\<rparr>, op_error = None\<rparr>"

definition rejected :: operation where
  "rejected = \<lparr>op_done = True, op_result = None, op_error = Some ''quota exceeded''\<rparr>"

definition emptied :: operation where
  "emptied = \<lparr>op_done = True, op_result = Some \<lparr>generated_videos = []\<rparr>, op_error = None\<rparr>"

definition service :: env where
  "service =
     \<lparr>script_dir = here,
      generate_videos = (\<lambda>r. Inr pending),
      operations_get = (\<lambda>n. if n < 2 then Inr pending else Inr finished),
      files_download = (\<lambda>v. Download_bytes [0x00, 0x01, 0x02]),
      write_outcome = Write_ok\<rparr>"


definition read_only :: env where
  "read_only = service\<lparr>write_outcome := Open_raises (Exception ''Permission denied'')\<rparr>"

definition flaky :: env where
  "flaky = service\<lparr>files_download := (\<lambda>v. Download_raises (Exception ''404''))\<rparr>"

definition mistyped :: env where
  "mistyped = service\<lparr>files_download := (\<lambda>v. Download_other ''str'')\<rparr>"

definition down :: env where
  "down = service\<lparr>generate_videos := (\<lambda>r. Inl (Exception ''503''))\<rparr>"

definition dropped :: env where
  "dropped = service\<lparr>operations_get := (\<lambda>n. if n < 1 then Inr pending else Inl (Exception ''timeout''))\<rparr>"

text \<open>
  A disk with one readable avatar, one that cannot be read, and an older video at the
  output path; a disk without any avatar; a disk whose only avatar cannot be read. On
  these no path is a link. On the last disk the output path is a link to the first avatar.
\<close>

definition disk :: filesystem where
  "disk =
     \<lparr>realpath = (\<lambda>p. p),
      store =
        [[''repo'', ''server'', ''public'', ''avatars'', ''premium'', ''archer.png''] \<mapsto> File [0x89, 0x50],
         [''repo'', ''server'', ''public'', ''avatars'', ''premium'', ''knight.png''] \<mapsto>
           Unreadable (Exception ''Permission denied''),
         [''repo'', ''server'', ''public'', ''gamebuddies_veo_ad.mp4''] \<mapsto> File [0x09]]\<rparr>"

definition bare_disk :: filesystem where
  "bare_disk =
     \<lparr>realpath = (\<lambda>p. p),
      store = [[''repo'', ''server'', ''public'', ''gamebuddies_veo_ad.mp4''] \<mapsto> File [0x09]]\<rparr>"

definition locked_disk :: filesystem where
  "locked_disk =
     \<lparr>realpath = (\<lambda>p. p),
      store =
        [[''repo'', ''server'', ''public'', ''avatars'', ''premium'', ''knight.png''] \<mapsto>
           Unreadable (Exception ''Permission denied'')]\<rparr>"

definition linked_disk :: filesystem where
  "linked_disk =
     \<lparr>realpath =
        (\<lambda>p. if p = [''repo'', ''server'', ''public'', ''gamebuddies_veo_ad.mp4'']
             then [''repo'', ''server'', ''public'', ''avatars'', ''premium'', ''archer.png'']
             else p),
      store =
        [[''repo'', ''server'', ''public'', ''avatars'', ''premium'', ''archer.png''] \<mapsto> File [0x89, 0x50]]\<rparr>"

definition start :: world where
  "start = \<lparr>fs = disk, trace = []\<rparr>"

section \<open>Properties\<close>

subsection \<open>Worlds and traces\<close>

lemma fs_emit [simp]: "fs (emit es w) = fs w"
  by (simp add: emit_def)

lemma trace_emit [simp]: "trace (emit es w) = trace w @ es"
  by (simp add: emit_def)

lemma emit_emit [simp]: "emit es (emit es' w) = emit (es' @ es) w"
  by (simp add: emit_def)

lemma emit_Nil [simp]: "emit [] w = w"
  by (simp add: emit_def)

lemma lookup_put:
  "lookup (put f p n) q = (if realpath f q = realpath f p then Some n else lookup f q)"
  by (simp add: lookup_def put_def)

lemma realpath_put [simp]: "realpath (put f p n) = realpath f"
  by (simp add: put_def)

lemma submissions_simps [simp]:
  "submissions [] = []"
  "submissions (es @ es') = submissions es @ submissions es'"
  "submissions (Print m # es) = submissions es"
  "submissions (Open_file p md # es) = submissions es"
  "submissions (Sleep k # es) = submissions es"
  "submissions (Generate_videos r # es) = r # submissions es"
  "submissions (Operations_get n # es) = submissions es"
  "submissions (Files_download v # es) = submissions es"
  by (simp_all add: submissions_def)

lemma opened_simps [simp]:
  "opened [] = []"
  "opened (es @ es') = opened es @ opened es'"
  "opened (Print m # es) = opened es"
  "opened (Open_file p md # es) = (p, md) # opened es"
  "opened (Sleep k # es) = opened es"
  "opened (Generate_videos r # es) = opened es"
  "opened (Operations_get n # es) = opened es"
  "opened (Files_download v # es) = opened es"
  by (simp_all add: opened_def)

subsection \<open>Paths\<close>

lemma avatar_files_eq:
  "avatar_files d =
     map (\<lambda>x. abspath (d @ [''..'', ''..'']) @ [''public'', ''avatars'', ''premium'', x])
       [''archer.png'', ''knight.png'', ''mage.png'']"
  by (simp add: avatar_files_def premium_dir_def avatars_dir_def abspath_def normstep_def)

lemma output_path_eq:
  "output_path d = abspath (d @ [''..'', ''..'']) @ [''public'', ''gamebuddies_veo_ad.mp4'']"
  by (simp add: output_path_def abspath_def normstep_def)

lemma output_path_not_avatar: "output_path d \<notin> set (avatar_files d)"
  by (simp add: avatar_files_eq output_path_eq)

lemma example_paths:
  "avatar_files here =
     [[''repo'', ''server'', ''public'', ''avatars'', ''premium'', ''archer.png''],
      [''repo'', ''server'', ''public'', ''avatars'', ''premium'', ''knight.png''],
      [''repo'', ''server'', ''public'', ''avatars'', ''premium'', ''mage.png'']]"
  "output_path here = [''repo'', ''server'', ''public'', ''gamebuddies_veo_ad.mp4'']"
  by (simp_all add: avatar_files_eq output_path_eq abspath_def normstep_def here_def)

subsection \<open>The two loops over the avatar files\<close>

lemma verify_files_acc:
  "verify_files ps acc w =
     (acc @ filter (\<lambda>p. lookup (fs w) p \<noteq> None) ps, emit (missing_warnings (fs w) ps) w)"
  by (induction ps arbitrary: acc w) (simp_all add: missing_warnings_def)

lemma load_images_acc:
  "load_images ps imgs w =
     (imgs @ map asset_image (loaded (fs w) ps), emit (load_effects (fs w) ps) w)"
  by (induction ps arbitrary: imgs w)
     (simp_all add: loaded_def load_effects_def split: sum.splits)

lemma missing_warnings_quiet [simp]:
  "submissions (missing_warnings f ps) = []" "opened (missing_warnings f ps) = []"
  "api_calls (missing_warnings f ps) = []"
  by (induction ps) (simp_all add: missing_warnings_def api_calls_def)

lemma load_effects_quiet [simp]:
  "submissions (load_effects f ps) = []" "opened (load_effects f ps) = map (\<lambda>p. (p, Rb)) ps"
  by (induction ps) (simp_all add: load_effects_def split: sum.splits)

lemma loaded_Nil:
  assumes "\<forall>p\<in>set ps. \<forall>b. lookup f p \<noteq> Some (File b)"
  shows "loaded f ps = []"
  using assms
  by (induction ps) (auto simp: loaded_def read_file_def split: option.splits node.splits)

subsection \<open>The polling loop\<close>

lemma poll_rounds_0 [simp]: "poll_rounds n 0 = []"
  by (simp add: poll_rounds_def)

lemma poll_rounds_Suc:
  "poll_rounds n (Suc k) = [Sleep 10, Operations_get n, Print Dot] @ poll_rounds (Suc n) k"
  by (simp add: poll_rounds_def upt_rec)

lemma poll_rounds_numeral:
  "poll_rounds 0 1 = [Sleep 10, Operations_get 0, Print Dot]"
  "poll_rounds 0 3 =
     [Sleep 10, Operations_get 0, Print Dot, Sleep 10, Operations_get 1, Print Dot,
      Sleep 10, Operations_get 2, Print Dot]"
  "poll_rounds 0 4 =
     [Sleep 10, Operations_get 0, Print Dot, Sleep 10, Operations_get 1, Print Dot,
      Sleep 10, Operations_get 2, Print Dot, Sleep 10, Operations_get 3, Print Dot]"
  by (simp_all add: poll_rounds_def upt_rec)


lemma poll_first_done:
  assumes "\<forall>i<k. \<exists>opn'. seen e n opn i = Inr opn' \<and> \<not> op_done opn'"
    and "seen e n opn k = Inr ok" and "op_done ok" and "k \<le> fuel"
  shows "poll fuel e n opn w = Polled ok (emit (poll_rounds n k) w)"
  using assms
proof (induction k arbitrary: n opn w fuel)
  case 0
  then have "opn = ok" by (simp add: seen_def)
  with "0.prems" show ?case by (cases fuel) simp_all
next
  case (Suc k)
  from Suc.prems(1) [rule_format, of 0] have nd: "\<not> op_done opn" by (simp add: seen_def)
  from Suc.prems(4) obtain fuel' where fuel: "fuel = Suc fuel'" "k \<le> fuel'"
    by (cases fuel) auto
  have "\<exists>o1. operations_get e n = Inr o1"
  proof (cases k)
    case 0
    with Suc.prems(2) show ?thesis by (simp add: seen_def)
  next
    case (Suc k')
    with Suc.prems(1) [rule_format, of 1] show ?thesis by (auto simp: seen_def)
  qed
  then obtain o1 where o1: "operations_get e n = Inr o1" ..
  have shift: "seen e n opn (Suc i) = seen e (Suc n) o1 i" for i
    using o1 by (cases i) (simp_all add: seen_def)
  have a: "\<forall>i<k. \<exists>opn'. seen e (Suc n) o1 i = Inr opn' \<and> \<not> op_done opn'"
    using Suc.prems(1) shift by (metis Suc_less_eq)
  have b: "seen e (Suc n) o1 k = Inr ok" using Suc.prems(2) shift by simp
  from Suc.IH [OF a b Suc.prems(3) fuel(2)] nd o1 fuel(1) show ?case
    by (simp add: poll_rounds_Suc)
qed

lemma poll_raises:
  assumes "\<forall>i\<le>k. \<exists>opn'. seen e n opn i = Inr opn' \<and> \<not> op_done opn'"
    and "operations_get e (n + k) = Inl ex" and "k < fuel"
  shows "poll fuel e n opn w =
     Poll_raised ex (emit (poll_rounds n k @ [Sleep 10, Operations_get (n + k)]) w)"
  using assms
proof (induction k arbitrary: n opn w fuel)
  case 0
  from "0.prems"(1) [rule_format, of 0] have nd: "\<not> op_done opn" by (simp add: seen_def)
  from "0.prems"(3) obtain fuel' where "fuel = Suc fuel'" by (cases fuel) auto
  with nd "0.prems"(2) show ?case by simp
next
  case (Suc k)
  from Suc.prems(1) [rule_format, of 0] have nd: "\<not> op_done opn" by (simp add: seen_def)
  from Suc.prems(3) obtain fuel' where fuel: "fuel = Suc fuel'" "k < fuel'"
    by (cases fuel) auto
  from Suc.prems(1) [rule_format, of 1] obtain o1 where o1: "operations_get e n = Inr o1"
    by (auto simp: seen_def)
  have shift: "seen e n opn (Suc i) = seen e (Suc n) o1 i" for i
    using o1 by (cases i) (simp_all add: seen_def)
  have a: "\<forall>i\<le>k. \<exists>opn'. seen e (Suc n) o1 i = Inr opn' \<and> \<not> op_done opn'"
    using Suc.prems(1) shift by (metis Suc_le_mono)
  have b: "operations_get e (Suc n + k) = Inl ex" using Suc.prems(2) by simp
  from Suc.IH [OF a b fuel(2)] nd o1 fuel(1) show ?case
    by (simp add: poll_rounds_Suc)
qed

lemma poll_world:
  "\<exists>es. polling_world (poll fuel e n opn w) = emit es w \<and> submissions es = [] \<and> opened es = []"
proof (induction fuel arbitrary: n opn w)
  case 0
  show ?case by (rule exI [of _ "[]"]) simp
next
  case (Suc fuel)
  show ?case
  proof (cases "op_done opn")
    case True
    then show ?thesis by (intro exI [of _ "[]"]) simp
  next
    case nd: False
    show ?thesis
    proof (cases "operations_get e n")
      case (Inl ex)
      with nd show ?thesis by (intro exI [of _ "[Sleep 10, Operations_get n]"]) simp
    next
      case (Inr o1)
      from Suc.IH [of "Suc n" o1 "emit [Sleep 10, Operations_get n, Print Dot] w"]
      obtain es where es: "polling_world (poll fuel e (Suc n) o1 (emit [Sleep 10, Operations_get n, Print Dot] w))
          = emit es (emit [Sleep 10, Operations_get n, Print Dot] w)"
        "submissions es = []" "opened es = []" by blast
      with nd Inr show ?thesis
        by (intro exI [of _ "[Sleep 10, Operations_get n, Print Dot] @ es"]) simp
    qed
  qed
qed

lemma poll_fs: "fs (polling_world (poll fuel e n opn w)) = fs w"
  using poll_world [of fuel e n opn w] by auto

subsection \<open>Saving\<close>

lemma save_video_cases:
  "save_video e v w =
     (let out = output_path (script_dir e); w1 = emit (save_prelude out v) w in
      case files_download e (video v) of
        Download_raises ex \<Rightarrow> emit [Print (Failed_to_save ex)] w1
      | Download_other ty \<Rightarrow> emit [Print (Download_returned_type ty)] w1
      | Download_bytes b \<Rightarrow>
          (case write_outcome e of
             Write_ok \<Rightarrow>
               (emit [Print Download_returned_bytes, Open_file out Wb, Print Video_saved] w1)
                 \<lparr>fs := put (fs w) out (File b)\<rparr>
           | Open_raises ex \<Rightarrow>
               emit [Print Download_returned_bytes, Open_file out Wb, Print (Failed_to_save ex)] w1
           | Write_raises k ex \<Rightarrow>
               (emit [Print Download_returned_bytes, Open_file out Wb, Print (Failed_to_save ex)] w1)
                 \<lparr>fs := put (fs w) out (File (take k b))\<rparr>))"
  by (simp add: save_video_def save_prelude_def write_file_def emit_def Let_def
      split: download.splits write_outcome.splits)

lemma no_video_eq:
  "no_video opn w =
     emit (Print No_video_returned # (case op_error opn of Some er \<Rightarrow> [Print (Error_is er)] | None \<Rightarrow> [])) w"
  by (simp add: no_video_def split: option.splits)

lemma persist_first_video:
  assumes "op_result opn = Some r" and "generated_videos r = v # vs"
  shows "persist e opn w = save_video e v w"
  using assms by (simp add: persist_def)

lemma persist_trace:
  "\<exists>es. trace (persist e opn w) = trace w @ es \<and> submissions es = [] \<and>
        set (opened es) \<subseteq> {(output_path (script_dir e), Wb)}"
  by (auto simp: persist_def no_video_eq save_video_cases save_prelude_def Let_def
      split: option.splits list.splits download.splits write_outcome.splits)

lemma persist_lookup:
  "realpath (fs w) p \<noteq> realpath (fs w) (output_path (script_dir e)) \<Longrightarrow>
     lookup (fs (persist e opn w)) p = lookup (fs w) p"
  by (auto simp: persist_def no_video_eq save_video_cases save_prelude_def Let_def lookup_put
      split: option.splits list.splits download.splits write_outcome.splits)

lemma persist_realpath: "realpath (fs (persist e opn w)) = realpath (fs w)"
  by (auto simp: persist_def no_video_eq save_video_cases save_prelude_def Let_def
      split: option.splits list.splits download.splits write_outcome.splits)

subsection \<open>The whole run\<close>

lemma submit_poll_save_trace:
  "\<exists>es. trace (world_of (submit_poll_save fuel e imgs w)) =
          trace w @ Generate_videos (veo_request imgs) # es \<and> submissions es = [] \<and>
        set (opened es) \<subseteq> {(output_path (script_dir e), Wb)}"
proof (cases "generate_videos e (veo_request imgs)")
  case (Inl ex)
  then show ?thesis by (simp add: submit_poll_save_def)
next
  case (Inr opn)
  let ?w1 = "emit [Generate_videos (veo_request imgs), Print Waiting] w"
  from poll_world [of fuel e 0 opn ?w1] obtain es
    where es: "polling_world (poll fuel e 0 opn ?w1) = emit es ?w1"
      "submissions es = []" "opened es = []" by blast
  show ?thesis
  proof (cases "poll fuel e 0 opn ?w1")
    case (Polled ok w2)
    with es have w2: "w2 = emit es ?w1" by simp
    from persist_trace [of e ok "emit [Print Generation_complete] w2"] obtain es'
      where "trace (persist e ok (emit [Print Generation_complete] w2)) =
          trace (emit [Print Generation_complete] w2) @ es'"
        "submissions es' = []" "set (opened es') \<subseteq> {(output_path (script_dir e), Wb)}"
      by blast
    with Inr Polled w2 es(2,3) show ?thesis
      by (intro exI [of _ "Print Waiting # es @ Print Generation_complete # es'"])
        (simp add: submit_poll_save_def)
  next
    case (Poll_raised ex w2)
    with es have "w2 = emit es ?w1" by simp
    with Inr Poll_raised es(2,3) show ?thesis
      by (intro exI [of _ "Print Waiting # es @ [Print (Api_request_failed ex)]"])
        (simp add: submit_poll_save_def)
  next
    case (Still_polling w2)
    with es have "w2 = emit es ?w1" by simp
    with Inr Still_polling es(2,3) show ?thesis
      by (intro exI [of _ "Print Waiting # es"]) (simp add: submit_poll_save_def)
  qed
qed

lemma submit_poll_save_lookup:
  assumes "realpath (fs w) p \<noteq> realpath (fs w) (output_path (script_dir e))"
  shows "lookup (fs (world_of (submit_poll_save fuel e imgs w))) p = lookup (fs w) p"
proof (cases "generate_videos e (veo_request imgs)")
  case (Inl ex)
  then show ?thesis by (simp add: submit_poll_save_def)
next
  case (Inr opn)
  let ?w1 = "emit [Generate_videos (veo_request imgs), Print Waiting] w"
  have "fs (polling_world (poll fuel e 0 opn ?w1)) = fs w"
    by (simp add: poll_fs)
  with Inr assms show ?thesis
    by (cases "poll fuel e 0 opn ?w1") (simp_all add: submit_poll_save_def persist_lookup)
qed

lemma submit_poll_save_realpath:
  "realpath (fs (world_of (submit_poll_save fuel e imgs w))) = realpath (fs w)"
proof (cases "generate_videos e (veo_request imgs)")
  case (Inl ex)
  then show ?thesis by (simp add: submit_poll_save_def)
next
  case (Inr opn)
  let ?w1 = "emit [Generate_videos (veo_request imgs), Print Waiting] w"
  have "fs (polling_world (poll fuel e 0 opn ?w1)) = fs w"
    by (simp add: poll_fs)
  with Inr show ?thesis
    by (cases "poll fuel e 0 opn ?w1") (simp_all add: submit_poll_save_def persist_realpath)
qed

lemma run_unfold:
  "create_gamebuddies_ad fuel e f =
     (let ps = avatar_files (script_dir e);
          valid = filter (\<lambda>p. lookup f p \<noteq> None) ps;
          w1 = \<lparr>fs = f, trace = Print Starting # missing_warnings f ps\<rparr> in
      if valid = [] then Returned (emit [Print No_avatars_found] w1)
      else submit_poll_save fuel e (map asset_image (loaded f valid))
             (emit (Print (Found_avatars (length valid)) # load_effects f valid @
                    [Print Sending_request]) w1))"
  by (simp add: create_gamebuddies_ad_def verify_files_acc load_images_acc Let_def emit_def)

lemma run_submissions:
  "submissions (trace (world_of (create_gamebuddies_ad fuel e f))) =
     (let valid = filter (\<lambda>p. lookup f p \<noteq> None) (avatar_files (script_dir e)) in
      if valid = [] then [] else [veo_request (map asset_image (loaded f valid))])"
proof -
  let ?valid = "filter (\<lambda>p. lookup f p \<noteq> None) (avatar_files (script_dir e))"
  show ?thesis
  proof (cases "?valid = []")
    case True
    then show ?thesis by (simp add: run_unfold Let_def)
  next
    case False
    let ?w = "emit (Print (Found_avatars (length ?valid)) # load_effects f ?valid @ [Print Sending_request])
                \<lparr>fs = f, trace = Print Starting # missing_warnings f (avatar_files (script_dir e))\<rparr>"
    let ?imgs = "map asset_image (loaded f ?valid)"
    from submit_poll_save_trace [of fuel e ?imgs ?w] obtain es
      where "trace (world_of (submit_poll_save fuel e ?imgs ?w)) =
               trace ?w @ Generate_videos (veo_request ?imgs) # es" "submissions es = []"
      by blast
    with False show ?thesis by (simp add: run_unfold Let_def)
  qed
qed

lemma run_opened:
  "set (opened (trace (world_of (create_gamebuddies_ad fuel e f)))) \<subseteq>
     (\<lambda>p. (p, Rb)) ` set (avatar_files (script_dir e)) \<union> {(output_path (script_dir e), Wb)}"
proof -
  let ?valid = "filter (\<lambda>p. lookup f p \<noteq> None) (avatar_files (script_dir e))"
  show ?thesis
  proof (cases "?valid = []")
    case True
    then show ?thesis by (simp add: run_unfold Let_def)
  next
    case False
    let ?w = "emit (Print (Found_avatars (length ?valid)) # load_effects f ?valid @ [Print Sending_request])
                \<lparr>fs = f, trace = Print Starting # missing_warnings f (avatar_files (script_dir e))\<rparr>"
    let ?imgs = "map asset_image (loaded f ?valid)"
    from submit_poll_save_trace [of fuel e ?imgs ?w] obtain es
      where "trace (world_of (submit_poll_save fuel e ?imgs ?w)) =
               trace ?w @ Generate_videos (veo_request ?imgs) # es"
        "set (opened es) \<subseteq> {(output_path (script_dir e), Wb)}"
      by blast
    with False show ?thesis by (auto simp: run_unfold Let_def)
  qed
qed

lemma run_lookup:
  assumes "realpath f p \<noteq> realpath f (output_path (script_dir e))"
  shows "lookup (fs (world_of (create_gamebuddies_ad fuel e f))) p = lookup f p"
  using assms by (simp add: run_unfold Let_def submit_poll_save_lookup)

lemma run_realpath: "realpath (fs (world_of (create_gamebuddies_ad fuel e f))) = realpath f"
  by (simp add: run_unfold Let_def submit_poll_save_realpath)

lemma submit_raises:
  assumes "generate_videos e (veo_request imgs) = Inl ex"
  shows "submit_poll_save fuel e imgs w =
     Returned (emit [Generate_videos (veo_request imgs), Print (Api_request_failed ex)] w)"
  using assms by (simp add: submit_poll_save_def)

lemma get_raises:
  assumes "generate_videos e (veo_request imgs) = Inr opn"
    and "\<forall>i\<le>k. \<exists>opn'. seen e 0 opn i = Inr opn' \<and> \<not> op_done opn'"
    and "operations_get e k = Inl ex" and "k < fuel"
  shows "submit_poll_save fuel e imgs w =
     Returned (emit (Generate_videos (veo_request imgs) # Print Waiting # poll_rounds 0 k @
       [Sleep 10, Operations_get k, Print (Api_request_failed ex)]) w)"
proof -
  from assms(3) have "operations_get e (0 + k) = Inl ex" by simp
  from poll_raises [OF assms(2) this assms(4)] assms(1) show ?thesis
    by (simp add: submit_poll_save_def)
qed

lemma download_raises:
  assumes "generate_videos e (veo_request imgs) = Inr opn"
    and "\<forall>i<k. \<exists>opn'. seen e 0 opn i = Inr opn' \<and> \<not> op_done opn'"
    and "seen e 0 opn k = Inr ok" and "op_done ok" and "k \<le> fuel"
    and "op_result ok = Some r" and "generated_videos r = v # vs"
    and "files_download e (video v) = Download_raises ex"
  shows "submit_poll_save fuel e imgs w =
     Returned (emit (Generate_videos (veo_request imgs) # Print Waiting # poll_rounds 0 k @
       Print Generation_complete # save_prelude (output_path (script_dir e)) v @
       [Print (Failed_to_save ex)]) w)"
proof -
  from poll_first_done [OF assms(2-5)] assms(1,8) show ?thesis
    by (simp add: submit_poll_save_def persist_first_video [OF assms(6,7)] save_video_cases Let_def)
qed

lemma one_submission_at_most:
  "length (submissions (trace (world_of (create_gamebuddies_ad fuel e f)))) \<le> 1"
  by (simp add: run_submissions Let_def)

subsection \<open>The examples\<close>

lemma example_run:
  "create_gamebuddies_ad 5 service disk =
     Returned \<lparr>fs = put disk [''repo'', ''server'', ''public'', ''gamebuddies_veo_ad.mp4'']
                  (File [0x00, 0x01, 0x02]),
       trace =
         [Print Starting,
          Print (Avatar_not_found [''repo'', ''server'', ''public'', ''avatars'', ''premium'', ''mage.png'']),
          Print (Found_avatars 2),
          Print (Loading ''archer.png''),
          Open_file [''repo'', ''server'', ''public'', ''avatars'', ''premium'', ''archer.png''] Rb,
          Print (Loading ''knight.png''),
          Open_file [''repo'', ''server'', ''public'', ''avatars'', ''premium'', ''knight.png''] Rb,
          Print (Failed_to_load (Exception ''Permission denied'')),
          Print Sending_request,
          Generate_videos (veo_request [asset_image [0x89, 0x50]]),
          Print Waiting,
          Sleep 10, Operations_get 0, Print Dot,
          Sleep 10, Operations_get 1, Print Dot,
          Sleep 10, Operations_get 2, Print Dot,
          Print Generation_complete,
          Print (Saving_to [''repo'', ''server'', ''public'', ''gamebuddies_veo_ad.mp4'']),
          Print (Video_object clip),
          Print (Video_video_object (Video_file ''files/clip'')),
          Print (Video_video_attributes (Video_file ''files/clip'')),
          Print Attempting_download,
          Files_download (Video_file ''files/clip''),
          Print Download_returned_bytes,
          Open_file [''repo'', ''server'', ''public'', ''gamebuddies_veo_ad.mp4''] Wb,
          Print Video_saved]\<rparr>"
  by (simp add: run_unfold example_paths service_def disk_def Let_def loaded_def load_effects_def
      read_file_def basename_def missing_warnings_def submit_poll_save_def eval_nat_numeral
      pending_def finished_def clip_def persist_def save_video_cases save_prelude_def emit_def
      lookup_def)

lemma flaky_run:
  "create_gamebuddies_ad 3 flaky disk =
     Returned \<lparr>fs = disk,
       trace =
         [Print Starting,
          Print (Avatar_not_found [''repo'', ''server'', ''public'', ''avatars'', ''premium'', ''mage.png'']),
          Print (Found_avatars 2),
          Print (Loading ''archer.png''),
          Open_file [''repo'', ''server'', ''public'', ''avatars'', ''premium'', ''archer.png''] Rb,
          Print (Loading ''knight.png''),
          Open_file [''repo'', ''server'', ''public'', ''avatars'', ''premium'', ''knight.png''] Rb,
          Print (Failed_to_load (Exception ''Permission denied'')),
          Print Sending_request,
          Generate_videos (veo_request [asset_image [0x89, 0x50]]),
          Print Waiting,
          Sleep 10, Operations_get 0, Print Dot,
          Sleep 10, Operations_get 1, Print Dot,
          Sleep 10, Operations_get 2, Print Dot,
          Print Generation_complete,
          Print (Saving_to [''repo'', ''server'', ''public'', ''gamebuddies_veo_ad.mp4'']),
          Print (Video_object clip),
          Print (Video_video_object (Video_file ''files/clip'')),
          Print (Video_video_attributes (Video_file ''files/clip'')),
          Print Attempting_download,
          Files_download (Video_file ''files/clip''),
          Print (Failed_to_save (Exception ''404''))]\<rparr>"
  by (simp add: run_unfold example_paths flaky_def service_def disk_def Let_def loaded_def
      load_effects_def read_file_def basename_def missing_warnings_def submit_poll_save_def
      eval_nat_numeral pending_def finished_def clip_def persist_def save_video_cases
      save_prelude_def emit_def lookup_def)

lemma linked_run:
  "create_gamebuddies_ad 5 service linked_disk =
     Returned \<lparr>fs = put linked_disk [''repo'', ''server'', ''public'', ''gamebuddies_veo_ad.mp4'']
                  (File [0x00, 0x01, 0x02]),
       trace =
         [Print Starting,
          Print (Avatar_not_found [''repo'', ''server'', ''public'', ''avatars'', ''premium'', ''knight.png'']),
          Print (Avatar_not_found [''repo'', ''server'', ''public'', ''avatars'', ''premium'', ''mage.png'']),
          Print (Found_avatars 1),
          Print (Loading ''archer.png''),
          Open_file [''repo'', ''server'', ''public'', ''avatars'', ''premium'', ''archer.png''] Rb,
          Print Sending_request,
          Generate_videos (veo_request [asset_image [0x89, 0x50]]),
          Print Waiting,
          Sleep 10, Operations_get 0, Print Dot,
          Sleep 10, Operations_get 1, Print Dot,
          Sleep 10, Operations_get 2, Print Dot,
          Print Generation_complete,
          Print (Saving_to [''repo'', ''server'', ''public'', ''gamebuddies_veo_ad.mp4'']),
          Print (Video_object clip),
          Print (Video_video_object (Video_file ''files/clip'')),
          Print (Video_video_attributes (Video_file ''files/clip'')),
          Print Attempting_download,
          Files_download (Video_file ''files/clip''),
          Print Download_returned_bytes,
          Open_file [''repo'', ''server'', ''public'', ''gamebuddies_veo_ad.mp4''] Wb,
          Print Video_saved]\<rparr>"
  by (simp add: run_unfold example_paths service_def linked_disk_def Let_def loaded_def
      load_effects_def read_file_def basename_def missing_warnings_def submit_poll_save_def
      eval_nat_numeral pending_def finished_def clip_def persist_def save_video_cases
      save_prelude_def emit_def lookup_def)




lemma seen_flaky_before:
  "\<forall>i<3. \<exists>opn'. seen flaky 0 pending i = Inr opn' \<and> \<not> op_done opn'"
  by (auto simp: seen_def flaky_def service_def pending_def split: nat.split)

lemma seen_flaky_at: "seen flaky 0 pending 3 = Inr finished"
  by (simp add: seen_def flaky_def service_def eval_nat_numeral)

lemma seen_dropped_before:
  "\<forall>i\<le>1. \<exists>opn'. seen dropped 0 pending i = Inr opn' \<and> \<not> op_done opn'"
  by (auto simp: seen_def dropped_def service_def pending_def split: nat.split)

section \<open>The properties of the specification\<close>

subsection \<open>C1: the polling loop\<close>



subsection \<open>C2: saving the downloaded bytes\<close>

text \<open>
  C2 fails as it is stated: with a first video whose download returns bytes, an
  \<^verbatim>\<open>open\<close> of the output path that raises leaves the older file where it was; the handler
  of line 123 catches the exception.
\<close>

theorem persister_open_raises_counterexample:
  "op_done finished \<and>
   op_result finished = Some \<lparr>generated_videos = [clip]\<rparr> \<and>
   files_download read_only (video clip) = Download_bytes [0x00, 0x01, 0x02] \<and>
   lookup (fs (persist read_only finished start)) (output_path (script_dir read_only)) =
     Some (File [0x09])"
  by (simp add: finished_def read_only_def service_def persist_def save_video_cases Let_def
      start_def disk_def example_paths lookup_def)

text \<open>
  C2, amended. When the operation's result has a first video, its download returns bytes,
  and opening and writing the output file raise nothing, the filesystem afterwards is the
  one before with exactly those bytes stored for the fixed output path, in place of
  whatever was there, so that the output path reads as those bytes, and the save is
  reported.
\<close>

theorem persister_writes_downloaded_bytes:
  assumes "op_result opn = Some r" and "generated_videos r = v # vs"
    and "files_download e (video v) = Download_bytes b"
    and "write_outcome e = Write_ok"
  shows "fs (persist e opn w) =
           (fs w)\<lparr>store := (store (fs w))
             (realpath (fs w) (output_path (script_dir e)) \<mapsto> File b)\<rparr> \<and>
         lookup (fs (persist e opn w)) (output_path (script_dir e)) = Some (File b) \<and>
         trace (persist e opn w) =
           trace w @ save_prelude (output_path (script_dir e)) v @
             [Print Download_returned_bytes, Open_file (output_path (script_dir e)) Wb,
              Print Video_saved]"
  using assms by (simp add: persist_first_video save_video_cases Let_def lookup_put) (simp add: put_def)

theorem persister_writes_downloaded_bytes_witness:
  "lookup (fs start) [''repo'', ''server'', ''public'', ''gamebuddies_veo_ad.mp4''] = Some (File [0x09]) \<and>
   fs (persist service finished start) =
     disk\<lparr>store := (store disk)
       ([''repo'', ''server'', ''public'', ''gamebuddies_veo_ad.mp4''] \<mapsto> File [0x00, 0x01, 0x02])\<rparr> \<and>
   lookup (fs (persist service finished start))
       [''repo'', ''server'', ''public'', ''gamebuddies_veo_ad.mp4''] = Some (File [0x00, 0x01, 0x02]) \<and>
   trace (persist service finished start) =
     [Print (Saving_to [''repo'', ''server'', ''public'', ''gamebuddies_veo_ad.mp4'']),
      Print (Video_object clip),
      Print (Video_video_object (Video_file ''files/clip'')),
      Print (Video_video_attributes (Video_file ''files/clip'')),
      Print Attempting_download,
      Files_download (Video_file ''files/clip''),
      Print Download_returned_bytes,
      Open_file [''repo'', ''server'', ''public'', ''gamebuddies_veo_ad.mp4''] Wb,
      Print Video_saved]"
proof -
  have "op_result finished = Some \<lparr>generated_videos = [clip]\<rparr>" by (simp add: finished_def)
  moreover have "generated_videos \<lparr>generated_videos = [clip]\<rparr> = clip # []" by simp
  moreover have "files_download service (video clip) = Download_bytes [0x00, 0x01, 0x02]"
    by (simp add: service_def)
  moreover have "write_outcome service = Write_ok" by (simp add: service_def)
  ultimately have "fs (persist service finished start) =
           (fs start)\<lparr>store := (store (fs start))
             (realpath (fs start) (output_path (script_dir service)) \<mapsto> File [0x00, 0x01, 0x02])\<rparr> \<and>
         lookup (fs (persist service finished start)) (output_path (script_dir service)) =
           Some (File [0x00, 0x01, 0x02]) \<and>
         trace (persist service finished start) =
           trace start @ save_prelude (output_path (script_dir service)) clip @
             [Print Download_returned_bytes, Open_file (output_path (script_dir service)) Wb,
              Print Video_saved]"
    by (rule persister_writes_downloaded_bytes)
  then show ?thesis
    by (simp add: start_def save_prelude_def service_def example_paths clip_def disk_def lookup_def)
qed

subsection \<open>C3: no avatar, no request\<close>

text \<open>
  C3. When none of the three candidate paths exists, the run returns after the three
  warnings and the message of line 35, with the filesystem as it was and without any call
  to the remote service, whatever the service would have answered.
\<close>

theorem no_avatar_no_api_call:
  assumes "\<forall>p\<in>set (avatar_files (script_dir e)). lookup f p = None"
  shows "create_gamebuddies_ad fuel e f =
           Returned \<lparr>fs = f, trace = Print Starting #
             map (\<lambda>p. Print (Avatar_not_found p)) (avatar_files (script_dir e)) @
             [Print No_avatars_found]\<rparr> \<and>
         api_calls (trace (world_of (create_gamebuddies_ad fuel e f))) = []"
proof -
  from assms have "filter (\<lambda>p. lookup f p \<noteq> None) (avatar_files (script_dir e)) = []"
    and "filter (\<lambda>p. lookup f p = None) (avatar_files (script_dir e)) = avatar_files (script_dir e)"
    by (simp_all add: filter_empty_conv filter_id_conv)
  then show ?thesis
    by (simp add: run_unfold Let_def missing_warnings_def emit_def api_calls_def filter_empty_conv)
qed

theorem no_avatar_no_api_call_witness:
  "create_gamebuddies_ad 2 service bare_disk =
     Returned \<lparr>fs = bare_disk, trace =
       [Print Starting,
        Print (Avatar_not_found [''repo'', ''server'', ''public'', ''avatars'', ''premium'', ''archer.png'']),
        Print (Avatar_not_found [''repo'', ''server'', ''public'', ''avatars'', ''premium'', ''knight.png'']),
        Print (Avatar_not_found [''repo'', ''server'', ''public'', ''avatars'', ''premium'', ''mage.png'']),
        Print No_avatars_found]\<rparr> \<and>
   api_calls (trace (world_of (create_gamebuddies_ad 2 service bare_disk))) = []"
  using no_avatar_no_api_call [of service bare_disk 2]
  by (simp add: service_def example_paths bare_disk_def api_calls_def lookup_def)

subsection \<open>C4: the image loader\<close>

text \<open>
  C4. For every list of paths, the loop of lines 43 to 60 produces one reference image for
  each file that could be read, in the order of the list, with the bytes of that file, the
  MIME type \<^verbatim>\<open>image/png\<close> and the reference type \<^verbatim>\<open>asset\<close>; a file that cannot be read
  gets its failure message and the loop goes on with the next path.
\<close>

theorem image_loader_one_image_per_file_read:
  "map (image_bytes \<circ> ref_image) (fst (load_images ps [] w)) = loaded (fs w) ps \<and>
   map reference_type (fst (load_images ps [] w)) = replicate (length (loaded (fs w) ps)) ''asset'' \<and>
   map (mime_type \<circ> ref_image) (fst (load_images ps [] w)) = replicate (length (loaded (fs w) ps)) ''image/png'' \<and>
   snd (load_images ps [] w) = emit (load_effects (fs w) ps) w"
proof -
  have imgs: "fst (load_images ps [] w) = map asset_image (loaded (fs w) ps)"
    and world: "snd (load_images ps [] w) = emit (load_effects (fs w) ps) w"
    by (simp_all add: load_images_acc)
  have "map (image_bytes \<circ> ref_image) (map asset_image bs) = bs" for bs
    by (induction bs) (simp_all add: asset_image_def)
  moreover have "map reference_type (map asset_image bs) = replicate (length bs) ''asset''" for bs
    by (induction bs) (simp_all add: asset_image_def)
  moreover have "map (mime_type \<circ> ref_image) (map asset_image bs) =
      replicate (length bs) ''image/png''" for bs
    by (induction bs) (simp_all add: asset_image_def)
  ultimately show ?thesis using imgs world by simp
qed

subsection \<open>C5: a download that is not bytes\<close>

text \<open>
  C5. When the download of the first video returns a value that is not bytes, the
  filesystem is left as it was and the last thing done is to print the type of that value.
\<close>

theorem non_bytes_download_writes_nothing:
  assumes "op_result opn = Some r" and "generated_videos r = v # vs"
    and "files_download e (video v) = Download_other ty"
  shows "fs (persist e opn w) = fs w \<and>
         trace (persist e opn w) =
           trace w @ save_prelude (output_path (script_dir e)) v @ [Print (Download_returned_type ty)]"
  using assms by (simp add: persist_first_video save_video_cases Let_def)

theorem non_bytes_download_writes_nothing_witness:
  "fs (persist mistyped finished start) = disk \<and>
   trace (persist mistyped finished start) =
     [Print (Saving_to [''repo'', ''server'', ''public'', ''gamebuddies_veo_ad.mp4'']),
      Print (Video_object clip),
      Print (Video_video_object (Video_file ''files/clip'')),
      Print (Video_video_attributes (Video_file ''files/clip'')),
      Print Attempting_download,
      Files_download (Video_file ''files/clip''),
      Print (Download_returned_type ''str'')]"
proof -
  have "op_result finished = Some \<lparr>generated_videos = [clip]\<rparr>" by (simp add: finished_def)
  moreover have "generated_videos \<lparr>generated_videos = [clip]\<rparr> = clip # []" by simp
  moreover have "files_download mistyped (video clip) = Download_other ''str''"
    by (simp add: mistyped_def service_def)
  ultimately have "fs (persist mistyped finished start) = fs start \<and>
         trace (persist mistyped finished start) =
           trace start @ save_prelude (output_path (script_dir mistyped)) clip @
             [Print (Download_returned_type ''str'')]"
    by (rule non_bytes_download_writes_nothing)
  then show ?thesis
    by (simp add: start_def save_prelude_def mistyped_def service_def example_paths clip_def)
qed

subsection \<open>C6: no video in the result\<close>

text \<open>
  C6. When the operation has no result, or a result with an empty list of videos, the
  filesystem is left as it was, the absence is printed, and the operation's error is
  printed after it when there is one.
\<close>

theorem no_video_writes_nothing:
  assumes "op_result opn = None \<or> (\<exists>r. op_result opn = Some r \<and> generated_videos r = [])"
  shows "fs (persist e opn w) = fs w \<and>
         trace (persist e opn w) =
           trace w @ Print No_video_returned #
             (case op_error opn of Some er \<Rightarrow> [Print (Error_is er)] | None \<Rightarrow> [])"
  using assms by (auto simp: persist_def no_video_eq)

theorem no_video_writes_nothing_witness:
  "fs (persist service rejected start) = disk \<and>
   trace (persist service rejected start) =
     [Print No_video_returned, Print (Error_is ''quota exceeded'')] \<and>
   fs (persist service emptied start) = disk \<and>
   trace (persist service emptied start) = [Print No_video_returned]"
proof -
  have a: "op_result rejected = None \<or>
      (\<exists>r. op_result rejected = Some r \<and> generated_videos r = [])"
    by (simp add: rejected_def)
  have b: "op_result emptied = None \<or>
      (\<exists>r. op_result emptied = Some r \<and> generated_videos r = [])"
    by (simp add: emptied_def)
  from no_video_writes_nothing [OF a, of service start]
    no_video_writes_nothing [OF b, of service start]
  show ?thesis by (simp add: start_def rejected_def emptied_def)
qed

subsection \<open>C7: failures\<close>

text \<open>
  C7 fails as it is stated: a download that raises is caught by the inner handler
  of line 123, which prints the save failure; the outermost handler of line 130 prints
  nothing in that run.
\<close>

theorem download_error_counterexample:
  "files_download flaky (Video_file ''files/clip'') = Download_raises (Exception ''404'') \<and>
   last (trace (world_of (create_gamebuddies_ad 3 flaky disk))) =
     Print (Failed_to_save (Exception ''404'')) \<and>
   Print (Api_request_failed (Exception ''404'')) \<notin>
     set (trace (world_of (create_gamebuddies_ad 3 flaky disk)))"
  by (simp add: flaky_run) (simp add: flaky_def service_def)

text \<open>
  C7, amended. A submission that raises and a poll that raises are caught by the outermost
  handler, which prints the exception as an API failure; a download that raises is caught
  by the inner handler around download and save, which prints it as a save failure. In the
  three cases the run returns right after that message, and no run submits more than
  once.
\<close>

theorem failures_are_caught_and_end_the_run:
  "(generate_videos e (veo_request imgs) = Inl ex \<longrightarrow>
      submit_poll_save fuel e imgs w =
        Returned (emit [Generate_videos (veo_request imgs), Print (Api_request_failed ex)] w)) \<and>
   (generate_videos e (veo_request imgs) = Inr opn \<and>
    (\<forall>i\<le>k. \<exists>opn'. seen e 0 opn i = Inr opn' \<and> \<not> op_done opn') \<and>
    operations_get e k = Inl ex \<and> k < fuel \<longrightarrow>
      submit_poll_save fuel e imgs w =
        Returned (emit (Generate_videos (veo_request imgs) # Print Waiting # poll_rounds 0 k @
          [Sleep 10, Operations_get k, Print (Api_request_failed ex)]) w)) \<and>
   (generate_videos e (veo_request imgs) = Inr opn \<and>
    (\<forall>i<k. \<exists>opn'. seen e 0 opn i = Inr opn' \<and> \<not> op_done opn') \<and>
    seen e 0 opn k = Inr ok \<and> op_done ok \<and> k \<le> fuel \<and>
    op_result ok = Some r \<and> generated_videos r = v # vs \<and>
    files_download e (video v) = Download_raises ex \<longrightarrow>
      submit_poll_save fuel e imgs w =
        Returned (emit (Generate_videos (veo_request imgs) # Print Waiting # poll_rounds 0 k @
          Print Generation_complete # save_prelude (output_path (script_dir e)) v @
          [Print (Failed_to_save ex)]) w)) \<and>
   length (submissions (trace (world_of (create_gamebuddies_ad fuel e f)))) \<le> 1"
  using submit_raises [of e imgs ex fuel w] get_raises [of e imgs opn k ex fuel w]
    download_raises [of e imgs opn k ok fuel r v vs ex w] one_submission_at_most [of fuel e f]
  by blast

theorem failures_are_caught_and_end_the_run_witness:
  "submit_poll_save 3 down [] start =
     Returned (emit [Generate_videos (veo_request []),
                     Print (Api_request_failed (Exception ''503''))] start) \<and>
   submit_poll_save 3 dropped [] start =
     Returned (emit [Generate_videos (veo_request []), Print Waiting,
                     Sleep 10, Operations_get 0, Print Dot,
                     Sleep 10, Operations_get 1,
                     Print (Api_request_failed (Exception ''timeout''))] start) \<and>
   submit_poll_save 3 flaky [] start =
     Returned (emit [Generate_videos (veo_request []), Print Waiting,
                     Sleep 10, Operations_get 0, Print Dot,
                     Sleep 10, Operations_get 1, Print Dot,
                     Sleep 10, Operations_get 2, Print Dot,
                     Print Generation_complete,
                     Print (Saving_to [''repo'', ''server'', ''public'', ''gamebuddies_veo_ad.mp4'']),
                     Print (Video_object clip),
                     Print (Video_video_object (Video_file ''files/clip'')),
                     Print (Video_video_attributes (Video_file ''files/clip'')),
                     Print Attempting_download,
                     Files_download (Video_file ''files/clip''),
                     Print (Failed_to_save (Exception ''404''))] start) \<and>
   length (submissions (trace (world_of (create_gamebuddies_ad 3 flaky disk)))) \<le> 1"
proof -
  have s1: "generate_videos down (veo_request []) = Inl (Exception ''503'')"
    by (simp add: down_def service_def)
  have s2: "generate_videos dropped (veo_request []) = Inr pending"
    "operations_get dropped 1 = Inl (Exception ''timeout'')" "(1::nat) < 3"
    by (simp_all add: dropped_def service_def)
  have s3: "generate_videos flaky (veo_request []) = Inr pending" "op_done finished"
    "(3::nat) \<le> 3" "op_result finished = Some \<lparr>generated_videos = [clip]\<rparr>"
    "generated_videos \<lparr>generated_videos = [clip]\<rparr> = clip # []"
    "files_download flaky (video clip) = Download_raises (Exception ''404'')"
    by (simp_all add: flaky_def service_def finished_def)
  from failures_are_caught_and_end_the_run
    [where e = down and imgs = "[]" and ex = "Exception ''503''" and fuel = 3 and w = start] s1
  have a: "submit_poll_save 3 down [] start =
     Returned (emit [Generate_videos (veo_request []),
                     Print (Api_request_failed (Exception ''503''))] start)"
    by blast
  from failures_are_caught_and_end_the_run
    [where e = dropped and imgs = "[]" and ex = "Exception ''timeout''" and fuel = 3
       and w = start and opn = pending and k = 1] s2 seen_dropped_before
  have b: "submit_poll_save 3 dropped [] start =
     Returned (emit (Generate_videos (veo_request []) # Print Waiting # poll_rounds 0 1 @
          [Sleep 10, Operations_get 1, Print (Api_request_failed (Exception ''timeout''))]) start)"
    by blast
  from failures_are_caught_and_end_the_run
    [where e = flaky and imgs = "[]" and ex = "Exception ''404''" and fuel = 3
       and w = start and opn = pending and k = 3 and ok = finished
       and r = "\<lparr>generated_videos = [clip]\<rparr>" and v = clip and vs = "[]" and f = disk]
    s3 seen_flaky_before seen_flaky_at
  have c: "submit_poll_save 3 flaky [] start =
        Returned (emit (Generate_videos (veo_request []) # Print Waiting # poll_rounds 0 3 @
          Print Generation_complete # save_prelude (output_path (script_dir flaky)) clip @
          [Print (Failed_to_save (Exception ''404''))]) start)"
    and d: "length (submissions (trace (world_of (create_gamebuddies_ad 3 flaky disk)))) \<le> 1"
    by blast+
  have out: "output_path (script_dir flaky) =
      [''repo'', ''server'', ''public'', ''gamebuddies_veo_ad.mp4'']"
    by (simp add: flaky_def service_def example_paths)
  from a b c d show ?thesis
    by (simp add: poll_rounds_numeral poll_rounds_Suc save_prelude_def out clip_def)
qed

subsection \<open>C8: the asset locator\<close>

text \<open>
  C8. Whatever the filesystem, the loop of lines 27 to 32 returns the candidate paths that
  exist, in the order of the candidate list, and prints one warning for each candidate
  path that does not exist, and nothing else.
\<close>

theorem asset_locator_keeps_existing_paths_in_order:
  "verify_files (avatar_files d) [] w =
     (filter (\<lambda>p. lookup (fs w) p \<noteq> None) (avatar_files d),
      emit (map (\<lambda>p. Print (Avatar_not_found p))
              (filter (\<lambda>p. lookup (fs w) p = None) (avatar_files d))) w)"
  using verify_files_acc [of "avatar_files d" "[]" w] by (simp add: missing_warnings_def)

subsection \<open>C9: avatars that exist but cannot be read\<close>

text \<open>
  C9. When at least one candidate path exists and none of the candidates is a file that
  can be read, the run still submits, once, and the request carries no reference image:
  line 34 looks at the paths found, not at the images loaded.
\<close>

theorem unreadable_avatars_are_still_submitted:
  assumes "\<exists>p\<in>set (avatar_files (script_dir e)). lookup f p \<noteq> None"
    and "\<forall>p\<in>set (avatar_files (script_dir e)). \<forall>b. lookup f p \<noteq> Some (File b)"
  shows "submissions (trace (world_of (create_gamebuddies_ad fuel e f))) = [veo_request []] \<and>
         reference_images (veo_request []) = []"
proof -
  let ?valid = "filter (\<lambda>p. lookup f p \<noteq> None) (avatar_files (script_dir e))"
  from assms(1) have "?valid \<noteq> []" by (simp add: filter_empty_conv)
  moreover from assms(2) have "loaded f ?valid = []" by (intro loaded_Nil) simp
  ultimately show ?thesis by (simp add: run_submissions Let_def veo_request_def)
qed

theorem unreadable_avatars_are_still_submitted_witness:
  "lookup locked_disk [''repo'', ''server'', ''public'', ''avatars'', ''premium'', ''knight.png''] =
     Some (Unreadable (Exception ''Permission denied'')) \<and>
   submissions (trace (world_of (create_gamebuddies_ad 2 service locked_disk))) = [veo_request []]"
  using unreadable_avatars_are_still_submitted [of service locked_disk 2]
  by (simp add: service_def example_paths locked_disk_def lookup_def)

subsection \<open>C10: what the run writes\<close>

text \<open>
  C10 fails as it is stated: when the output path is a link to an avatar file, the write
  of line 117 goes to that file, and the avatar no longer has the contents it had.
\<close>

theorem avatar_linked_to_output_counterexample:
  "[''repo'', ''server'', ''public'', ''avatars'', ''premium'', ''archer.png''] \<in>
     set (avatar_files (script_dir service)) \<and>
   lookup linked_disk [''repo'', ''server'', ''public'', ''avatars'', ''premium'', ''archer.png''] =
     Some (File [0x89, 0x50]) \<and>
   lookup (fs (world_of (create_gamebuddies_ad 5 service linked_disk)))
       [''repo'', ''server'', ''public'', ''avatars'', ''premium'', ''archer.png''] =
     Some (File [0x00, 0x01, 0x02])"
  by (simp add: linked_run lookup_put) (simp add: service_def example_paths linked_disk_def lookup_def)

text \<open>
  C10, amended. At every point of every run, finished or still polling: the only path
  opened for writing is the output path, and no avatar path is opened for writing; every
  path that does not name the file the output path names reads as it did before the run,
  so every avatar file that is not linked to the output file has its initial contents;
  and no link has changed.
\<close>

theorem only_the_output_file_is_written:
  "(\<forall>p. realpath f p \<noteq> realpath f (output_path (script_dir e)) \<longrightarrow>
        lookup (fs (world_of (create_gamebuddies_ad fuel e f))) p = lookup f p) \<and>
   (\<forall>p. (p, Wb) \<in> set (opened (trace (world_of (create_gamebuddies_ad fuel e f)))) \<longrightarrow>
        p = output_path (script_dir e)) \<and>
   (\<forall>p\<in>set (avatar_files (script_dir e)).
        (p, Wb) \<notin> set (opened (trace (world_of (create_gamebuddies_ad fuel e f)))) \<and>
        (realpath f p \<noteq> realpath f (output_path (script_dir e)) \<longrightarrow>
           lookup (fs (world_of (create_gamebuddies_ad fuel e f))) p = lookup f p)) \<and>
   realpath (fs (world_of (create_gamebuddies_ad fuel e f))) = realpath f"
proof -
  have a: "p = output_path (script_dir e)"
    if "(p, Wb) \<in> set (opened (trace (world_of (create_gamebuddies_ad fuel e f))))" for p
    using that run_opened [of fuel e f] by auto
  have b: "p \<noteq> output_path (script_dir e)" if "p \<in> set (avatar_files (script_dir e))" for p
    using that output_path_not_avatar [of "script_dir e"] by auto
  from a b show ?thesis by (auto simp: run_lookup run_realpath)
qed

theorem only_the_output_file_is_written_witness:
  "realpath disk [''repo'', ''server'', ''public'', ''avatars'', ''premium'', ''archer.png''] \<noteq>
     realpath disk [''repo'', ''server'', ''public'', ''gamebuddies_veo_ad.mp4''] \<and>
   lookup (fs (world_of (create_gamebuddies_ad 5 service disk)))
      [''repo'', ''server'', ''public'', ''avatars'', ''premium'', ''archer.png''] =
     Some (File [0x89, 0x50]) \<and>
   ([''repo'', ''server'', ''public'', ''avatars'', ''premium'', ''archer.png''], Wb) \<notin>
     set (opened (trace (world_of (create_gamebuddies_ad 5 service disk)))) \<and>
   ([''repo'', ''server'', ''public'', ''gamebuddies_veo_ad.mp4''], Wb) \<in>
     set (opened (trace (world_of (create_gamebuddies_ad 5 service disk)))) \<and>
   output_path (script_dir service) = [''repo'', ''server'', ''public'', ''gamebuddies_veo_ad.mp4'']"
proof -
  let ?archer = "[''repo'', ''server'', ''public'', ''avatars'', ''premium'', ''archer.png'']"
  let ?W = "world_of (create_gamebuddies_ad 5 service disk)"
  have dir: "script_dir service = here" by (simp add: service_def)
  have mem: "?archer \<in> set (avatar_files (script_dir service))"
    by (simp add: dir example_paths)
  have out: "output_path (script_dir service) =
      [''repo'', ''server'', ''public'', ''gamebuddies_veo_ad.mp4'']"
    by (simp add: dir example_paths)
  have apart: "realpath disk ?archer \<noteq> realpath disk (output_path (script_dir service))"
    by (simp add: out disk_def)
  have archer: "lookup disk ?archer = Some (File [0x89, 0x50])"
    by (simp add: disk_def lookup_def)
  have wrote: "([''repo'', ''server'', ''public'', ''gamebuddies_veo_ad.mp4''], Wb) \<in> set (opened (trace ?W))"
    by (simp add: example_run)
  from only_the_output_file_is_written [of disk service 5]
  have "\<forall>p\<in>set (avatar_files (script_dir service)).
        (p, Wb) \<notin> set (opened (trace ?W)) \<and>
        (realpath disk p \<noteq> realpath disk (output_path (script_dir service)) \<longrightarrow>
           lookup (fs ?W) p = lookup disk p)"
    by blast
  with mem apart have "lookup (fs ?W) ?archer = lookup disk ?archer \<and>
      (?archer, Wb) \<notin> set (opened (trace ?W))"
    by blast
  with archer wrote out apart show ?thesis by simp
qed

end
